theory Spec2Isabelle
  imports Main
begin

section \<open>JavaScript values used by the client\<close>

text \<open>
  The client (the module defining \<open>A11yReporter\<close>) only ever tests its configuration
  values for truthiness, joins them with \<open>||\<close>, interpolates them into template
  literals and, in \<open>chomp\<close>, indexes them. The values are modelled by the primitive
  values on which these operations are decided without floating point: \<open>undefined\<close>,
  \<open>null\<close>, booleans and strings. A string is a list of characters, one \<open>char\<close> standing
  for one code unit of the JavaScript string.
\<close>

datatype jsval = JUndefined | JNull | JBool bool | JStr string

text \<open>\<open>!v\<close> is \<open>\<not> truthy v\<close>.\<close>

fun truthy :: "jsval \<Rightarrow> bool" where
  "truthy JUndefined = False"
| "truthy JNull = False"
| "truthy (JBool b) = b"
| "truthy (JStr s) = (s \<noteq> [])"

text \<open>The string a value contributes to a template literal \<open>`${v}`\<close>.\<close>

fun to_str :: "jsval \<Rightarrow> string" where
  "to_str JUndefined = ''undefined''"
| "to_str JNull = ''null''"
| "to_str (JBool b) = (if b then ''true'' else ''false'')"
| "to_str (JStr s) = s"

text \<open>\<open>a || b\<close>\<close>

definition js_or :: "jsval \<Rightarrow> jsval \<Rightarrow> jsval" where
  "js_or a b = (if truthy a then a else b)"

text \<open>
  The decimal digits of an array length, as \<open>`${n}`\<close> prints it (a length is below
  \<open>2^32\<close>, where JavaScript prints every digit). \<open>digit_char\<close> is only applied to
  numbers below ten.
\<close>

definition digit_char :: "nat \<Rightarrow> char" where
  "digit_char d = ''0123456789'' ! d"

function show_nat :: "nat \<Rightarrow> string" where
  "show_nat n = (if n < 10 then [digit_char n] else show_nat (n div 10) @ [digit_char (n mod 10)])"
  by pat_completeness auto
termination
  by (relation "measure id") auto

declare show_nat.simps [simp del]

text \<open>Reading the digits back, to say that \<open>show_nat\<close> prints the exact number.\<close>

definition digit_value :: "char \<Rightarrow> nat" where
  "digit_value c = of_char c - 48"

definition read_nat :: "string \<Rightarrow> nat" where
  "read_nat s = foldl (\<lambda>a c. 10 * a + digit_value c) 0 s"

section \<open>Utility functions\<close>

text \<open>
  \<^verbatim>\<open>
  const chomp = (str, ch) => {
    if (!str) return str
    if (str[str.length - 1] === ch) return str.slice(0, -1)
    else return str
  }
  \<close>
  \<open>ch\<close> is a string (the only call passes \<open>'/'\<close>). A truthy string is non-empty, so
  \<open>str[str.length - 1]\<close> is the one-character string of its last character. On a
  truthy boolean \<open>str.length\<close> is \<open>undefined\<close>, the index is \<open>NaN\<close> and the element read
  is \<open>undefined\<close>, which is not \<open>===\<close> to a string: the value is returned as it is.
\<close>

definition chomp :: "jsval \<Rightarrow> string \<Rightarrow> jsval" where
  "chomp str ch =
     (if \<not> truthy str then str
      else case str of
             JStr s \<Rightarrow> if [last s] = ch then JStr (butlast s) else str
           | _ \<Rightarrow> str)"

text \<open>
  \<^verbatim>\<open>
  const plural = (num, single, multiple) => {
    if (!multiple) multiple = `${single}s`
    return num === 1 ? single : multiple
  }
  \<close>
  An omitted third argument is \<open>undefined\<close>. The number is an integer (the callers pass
  the length of an array), on which \<open>num === 1\<close> is equality with one.
\<close>

definition plural :: "int \<Rightarrow> jsval \<Rightarrow> jsval \<Rightarrow> jsval" where
  "plural num single multiple =
     (let multiple = (if \<not> truthy multiple then JStr (to_str single @ ''s'') else multiple)
      in if num = 1 then single else multiple)"

section \<open>Transport\<close>

text \<open>
  \<^verbatim>\<open>
  const post = (uri, data) => {
    return new Promise((resolve, reject) => {
      if (!uri) {
        console.warn('a11y-tracker URI is blank. would have posted:')
        console.warn(data)
        return resolve({})
      }
      const xhr = new XHR()
      xhr.onload = () => {
        if (Math.floor(xhr.status / 100) === 2) resolve(xhr.body)
        else reject(xhr)
      }
      xhr.open('POST', uri, true);
      xhr.setRequestHeader('content-type', 'application/json')
      xhr.send(JSON.stringify(data))
    })
  }
  \<close>
  What \<open>post\<close> does is a value: the arguments of the \<open>console.warn\<close> calls in order,
  the requests sent, and the state of the returned promise. The two collaborators are
  parameters: \<open>stringify\<close> is \<open>JSON.stringify\<close>, and \<open>respond\<close> gives, for the request
  sent, the \<open>xhr\<close> object as \<open>onload\<close> finds it, or \<open>None\<close> when \<open>onload\<close> never runs;
  then nothing settles the promise. The status of an \<open>xhr\<close> is a natural number, on
  which \<open>Math.floor(status / 100)\<close> is \<open>status div 100\<close>.

  An \<open>XMLHttpRequest\<close>, the browser's and the one of the \<open>xmlhttprequest\<close> package alike,
  holds the body of the response in \<open>responseText\<close>. It has no property \<open>body\<close>, so the
  read \<open>xhr.body\<close> gives \<open>undefined\<close>, whatever the response was.
\<close>

record xhr =
  status :: nat
  responseText :: string

definition body :: "xhr \<Rightarrow> jsval" where
  "body x = JUndefined"

datatype resolution = EmptyObject | Value jsval

datatype settled = Resolved resolution | Rejected xhr

record request =
  req_method :: string
  req_uri :: jsval
  req_async :: bool
  req_headers :: "(string \<times> string) list"
  req_body :: string

datatype 'd warning = WarnText string | WarnData 'd

record 'd effects =
  warned :: "'d warning list"
  sent :: "request list"
  promise :: "settled option"

definition post_request :: "('d \<Rightarrow> string) \<Rightarrow> jsval \<Rightarrow> 'd \<Rightarrow> request" where
  "post_request stringify uri data =
     \<lparr>req_method = ''POST'', req_uri = uri, req_async = True,
      req_headers = [(''content-type'', ''application/json'')],
      req_body = stringify data\<rparr>"

definition onload :: "xhr \<Rightarrow> settled" where
  "onload x = (if status x div 100 = 2 then Resolved (Value (body x)) else Rejected x)"

definition post ::
  "('d \<Rightarrow> string) \<Rightarrow> (request \<Rightarrow> xhr option) \<Rightarrow> jsval \<Rightarrow> 'd \<Rightarrow> 'd effects" where
  "post stringify respond uri data =
     (if \<not> truthy uri then
        \<lparr>warned = [WarnText ''a11y-tracker URI is blank. would have posted:'', WarnData data],
         sent = [],
         promise = Some (Resolved EmptyObject)\<rparr>
      else
        let req = post_request stringify uri data
        in \<lparr>warned = [],
            sent = [req],
            promise = map_option onload (respond req)\<rparr>)"

section \<open>Reporter\<close>

text \<open>
  The four configuration fields, as the static fields of \<open>A11yReporter\<close> (the Global
  Configuration State, all \<open>undefined\<close> until configured) and as an \<open>opts\<close> object; an
  \<open>opts\<close> field that is not there reads \<open>undefined\<close>. A reporter instance has the same
  four fields and its \<open>page\<close> and \<open>scanName\<close>.
\<close>

record config =
  trackerURI :: jsval
  revision :: jsval
  project :: jsval
  key :: jsval

record reporter = config +
  page :: jsval
  scanName :: jsval

definition empty_opts :: config where
  "empty_opts = \<lparr>trackerURI = JUndefined, revision = JUndefined, project = JUndefined,
                 key = JUndefined\<rparr>"

text \<open>
  \<^verbatim>\<open>
  constructor(page, scanName, opts={}) {
    this.page = page
    this.scanName = scanName
    this.revision = opts.revision || A11yReporter.revision
    this.project = opts.project || A11yReporter.project
    this.key = opts.key || A11yReporter.key
    this.trackerURI = chomp(opts.trackerURI || A11yReporter.trackerURI, '/')
  }
  \<close>
  The global state \<open>g\<close> is read, not written.
\<close>

definition new_A11yReporter :: "jsval \<Rightarrow> jsval \<Rightarrow> config \<Rightarrow> config \<Rightarrow> reporter" where
  "new_A11yReporter pg sn opts g =
     \<lparr>trackerURI = chomp (js_or (trackerURI opts) (trackerURI g)) ''/'',
      revision = js_or (revision opts) (revision g),
      project = js_or (project opts) (project g),
      key = js_or (key opts) (key g),
      page = pg,
      scanName = sn\<rparr>"

text \<open>
  \<^verbatim>\<open>
  get scanURI() {
    if (!this.trackerURI) return
    else return `${this.trackerURI}/api/v1/scans`
  }
  \<close>
\<close>

definition scanURI :: "reporter \<Rightarrow> jsval" where
  "scanURI r =
     (if \<not> truthy (trackerURI r) then JUndefined
      else JStr (to_str (trackerURI r) @ ''/api/v1/scans''))"

text \<open>
  The object literal passed to \<open>post\<close>, as the list of its properties in order. Four
  values are fields of the instance, the fifth is the scan result, of any type \<open>'r\<close>.
  \<^verbatim>\<open>
  async report(axeResult) {
    return await post(this.scanURI, {
      revision: this.revision,
      scan_name: this.scanName,
      project_name: this.project,
      key: this.key,
      result: axeResult,
    })
  }
  \<close>
\<close>

datatype 'r property_value = InstanceField jsval | ScanResult 'r

type_synonym 'r payload = "(string \<times> 'r property_value) list"

definition report_payload :: "reporter \<Rightarrow> 'r \<Rightarrow> 'r payload" where
  "report_payload r axeResult =
     [(''revision'', InstanceField (revision r)),
      (''scan_name'', InstanceField (scanName r)),
      (''project_name'', InstanceField (project r)),
      (''key'', InstanceField (key r)),
      (''result'', ScanResult axeResult)]"

definition report ::
  "('r payload \<Rightarrow> string) \<Rightarrow> (request \<Rightarrow> xhr option) \<Rightarrow> reporter \<Rightarrow> 'r
     \<Rightarrow> 'r payload effects" where
  "report stringify respond r axeResult =
     post stringify respond (scanURI r) (report_payload r axeResult)"

text \<open>
  \<^verbatim>\<open>
  A11yReporter.configure = (opts) => {
    if (opts.trackerURI) A11yReporter.trackerURI = opts.trackerURI
    if (opts.revision) A11yReporter.revision = opts.revision
    if (opts.project) A11yReporter.project = opts.project
    if (opts.key) A11yReporter.key = opts.key
  }
  \<close>
  The global state is passed in and returned.
\<close>

definition configure :: "config \<Rightarrow> config \<Rightarrow> config" where
  "configure opts g =
     (let g = (if truthy (trackerURI opts) then g\<lparr>trackerURI := trackerURI opts\<rparr> else g);
          g = (if truthy (revision opts) then g\<lparr>revision := revision opts\<rparr> else g);
          g = (if truthy (project opts) then g\<lparr>project := project opts\<rparr> else g);
          g = (if truthy (key opts) then g\<lparr>key := key opts\<rparr> else g)
      in g)"

section \<open>Cypress integration: the stages of \<open>reportA11y\<close>\<close>

text \<open>
  A violation of the scan result has an \<open>id\<close>, an \<open>impact\<close> and its \<open>nodes\<close>; the scan
  result has its \<open>violations\<close>. The client reads nothing else of them; a node is of any
  type \<open>'n\<close>.
\<close>

record 'n violation =
  violation_id :: jsval
  impact :: jsval
  nodes :: "'n list"

record 'n axe_result =
  violations :: "'n violation list"

text \<open>
  \<^verbatim>\<open>
  result.violations.forEach((violation) => {
    const numNodes = violation.nodes.length
    const nodeCount = numNodes === 1 ? '' : ` (${numNodes})`
    const message = `${violation.id}${nodeCount}`
    Cypress.log({
      name: `a11y/${violation.impact}`,
      consoleProps: () => violation,
      message: message,
    })
  })
  \<close>
  A log entry is the object given to \<open>Cypress.log\<close>; \<open>consoleProps\<close> is the violation
  the function returns.
\<close>

record 'n log_entry =
  name :: string
  consoleProps :: "'n violation"
  message :: string

definition log_violation :: "'n violation \<Rightarrow> 'n log_entry" where
  "log_violation violation =
     (let numNodes = length (nodes violation);
          nodeCount = (if numNodes = 1 then '''' else '' ('' @ show_nat numNodes @ '')'');
          message = to_str (violation_id violation) @ nodeCount
      in \<lparr>name = ''a11y/'' @ to_str (impact violation),
          consoleProps = violation,
          message = message\<rparr>)"

text \<open>
  The second stage: the report is started, then every violation is logged, then the
  stage waits for the report.
  \<^verbatim>\<open>
  const reportPromise = reporter.report(result)
  result.violations.forEach(...)
  return reportPromise
  \<close>
\<close>

definition report_stage ::
  "('n axe_result payload \<Rightarrow> string) \<Rightarrow> (request \<Rightarrow> xhr option) \<Rightarrow> reporter
     \<Rightarrow> 'n axe_result \<Rightarrow> 'n axe_result payload effects \<times> 'n log_entry list" where
  "report_stage stringify respond r result =
     (let reportPromise = report stringify respond r result
      in (reportPromise, map log_violation (violations result)))"

text \<open>
  The third stage. \<open>assert\<close> is the one of chai, which Cypress provides:
  \<open>assert.equal(actual, expected, message)\<close> passes when the two numbers are equal, and
  otherwise fails with an error whose message is the message given, followed by
  \<open>: expected <actual> to equal <expected>\<close>. \<open>Fail\<close> holds the message of that error.
\<close>

datatype assertion = Pass | Fail string

definition assert_equal :: "nat \<Rightarrow> nat \<Rightarrow> string \<Rightarrow> assertion" where
  "assert_equal actual expected msg =
     (if actual = expected then Pass
      else Fail (msg @ '': expected '' @ show_nat actual @ '' to equal '' @ show_nat expected))"

text \<open>
  \<^verbatim>\<open>
  const n = result.violations.length
  assert.equal(n, 0, `a11y: ${n} ${plural(n, 'violation')} ${plural(n, 'was', 'were')} detected`)
  \<close>
  The template literal is \<open>assert_message\<close>.
\<close>

definition assert_message :: "nat \<Rightarrow> string" where
  "assert_message n =
     ''a11y: '' @ show_nat n @ '' '' @ to_str (plural (int n) (JStr ''violation'') JUndefined)
       @ '' '' @ to_str (plural (int n) (JStr ''was'') (JStr ''were'')) @ '' detected''"

definition assert_stage :: "'n axe_result \<Rightarrow> assertion" where
  "assert_stage result =
     (let n = length (violations result)
      in assert_equal n 0 (assert_message n))"

text \<open>
  In \<open>src/index.js\<close> the message has no \<open>a11y: \<close> in front:
  \<^verbatim>\<open>
  const n = result.violations.length
  assert.equal(n, 0, `${n} ${plural(n, 'violation')} ${plural(n, 'was', 'were')} detected`)
  \<close>
\<close>

definition assert_message_index_js :: "nat \<Rightarrow> string" where
  "assert_message_index_js n =
     show_nat n @ '' '' @ to_str (plural (int n) (JStr ''violation'') JUndefined)
       @ '' '' @ to_str (plural (int n) (JStr ''was'') (JStr ''were'')) @ '' detected''"

definition assert_stage_index_js :: "'n axe_result \<Rightarrow> assertion" where
  "assert_stage_index_js result =
     (let n = length (violations result)
      in assert_equal n 0 (assert_message_index_js n))"

section \<open>The invariant of the effective tracker URI\<close>

text \<open>
  The invariant in the specification's words: the value is either a non-empty string
  with no trailing slash, or absent. Absent is what \<open>scanURI\<close> tests: a falsy value.
\<close>

fun slashless_or_absent :: "jsval \<Rightarrow> bool" where
  "slashless_or_absent (JStr s) = (s = [] \<or> last s \<noteq> CHR ''/'')"
| "slashless_or_absent v = (\<not> truthy v)"

text \<open>A configured value that is absent, or a string that does not end in two slashes.\<close>

fun at_most_one_trailing_slash :: "jsval \<Rightarrow> bool" where
  "at_most_one_trailing_slash (JStr s) = (take 2 (rev s) \<noteq> ''//'')"
| "at_most_one_trailing_slash v = (\<not> truthy v)"

section \<open>Facts about the utility functions\<close>

lemma digit_value_digit_char: "d < 10 \<Longrightarrow> digit_value (digit_char d) = d"
proof -
  assume "d < 10"
  then have "d \<in> {0, 1, 2, 3, 4, 5, 6, 7, 8, 9}" by auto
  then show ?thesis
    by (auto simp add: digit_value_def digit_char_def)
qed

lemma read_nat_snoc: "read_nat (s @ [c]) = 10 * read_nat s + digit_value c"
  by (simp add: read_nat_def)

text \<open>The digits printed are those of the number: reading them back gives it again.\<close>

lemma read_show_nat: "read_nat (show_nat n) = n"
proof (induction n rule: show_nat.induct)
  case (1 n)
  show ?case
  proof (cases "n < 10")
    case True
    then show ?thesis
      by (simp add: show_nat.simps [of n] read_nat_def digit_value_digit_char)
  next
    case False
    with "1" have "read_nat (show_nat (n div 10)) = n div 10" by simp
    with False show ?thesis
      by (simp add: show_nat.simps [of n] read_nat_snoc digit_value_digit_char)
  qed
qed

lemma show_nat_digit: "n < 10 \<Longrightarrow> show_nat n = [digit_char n]"
  by (simp add: show_nat.simps [of n])

lemma show_nat_small:
  "show_nat 0 = ''0''"
  "show_nat (Suc 0) = ''1''"
  "show_nat (Suc (Suc 0)) = ''2''"
  "show_nat (Suc (Suc (Suc 0))) = ''3''"
  "show_nat 2 = ''2''"
  by (simp_all add: show_nat_digit digit_char_def)

lemma status_2xx: "(s div 100 = 2) = (200 \<le> s \<and> s < (300::nat))"
  by arith

lemma plural_cases:
  "plural num single multiple =
     (if num = 1 then single
      else if truthy multiple then multiple
      else JStr (to_str single @ ''s''))"
  by (simp add: plural_def)

lemma chomp_falsy: "\<not> truthy v \<Longrightarrow> chomp v ch = v"
  by (simp add: chomp_def)

lemma chomp_slash:
  "chomp v ''/'' =
     (case v of
        JStr t \<Rightarrow> if t \<noteq> [] \<and> last t = CHR ''/'' then JStr (butlast t) else v
      | _ \<Rightarrow> v)"
  by (cases v) (auto simp add: chomp_def)

lemma assert_message_cases:
  "assert_message n =
     ''a11y: '' @ show_nat n @ '' '' @ (if n = 1 then ''violation'' else ''violations'')
       @ '' '' @ (if n = 1 then ''was'' else ''were'') @ '' detected''"
  by (simp add: assert_message_def plural_cases)

lemma assert_message_index_js_cases:
  "assert_message_index_js n =
     show_nat n @ '' '' @ (if n = 1 then ''violation'' else ''violations'')
       @ '' '' @ (if n = 1 then ''was'' else ''were'') @ '' detected''"
  by (simp add: assert_message_index_js_def plural_cases)

text \<open>
  Whether the promise of \<open>post\<close> is resolved or rejected is decided by the status as
  the specification says; what it is resolved with is \<open>xhr.body\<close>.
\<close>

lemma post_status_split:
  assumes "truthy uri"
    and "respond (post_request stringify uri data) = Some x"
  shows "(promise (post stringify respond uri data) = Some (Resolved (Value (body x)))
            \<longleftrightarrow> 200 \<le> status x \<and> status x < 300)
       \<and> (promise (post stringify respond uri data) = Some (Rejected x)
            \<longleftrightarrow> \<not> (200 \<le> status x \<and> status x < 300))
       \<and> sent (post stringify respond uri data) = [post_request stringify uri data]"
  using assms by (simp add: post_def onload_def status_2xx Let_def)

lemma chomp_keeps_invariant:
  "at_most_one_trailing_slash v \<Longrightarrow> slashless_or_absent (chomp v ''/'')"
proof (cases v)
  case (JStr s)
  assume h: "at_most_one_trailing_slash v"
  show ?thesis
  proof (cases "s = []")
    case True
    with JStr show ?thesis by (simp add: chomp_def)
  next
    case False
    then obtain t c where s: "s = t @ [c]" by (metis rev_exhaust)
    show ?thesis
    proof (cases "c = CHR ''/''")
      case True
      with h JStr s have "t = [] \<or> last t \<noteq> CHR ''/''"
        by (cases t rule: rev_cases) auto
      with JStr s True show ?thesis by (simp add: chomp_def)
    next
      case False
      with JStr s show ?thesis by (simp add: chomp_def)
    qed
  qed
qed (simp_all add: chomp_def)

lemma report_skips_network:
  "(sent (report stringify respond r axeResult) = []) = (\<not> truthy (trackerURI r))"
  by (simp add: report_def post_def scanURI_def Let_def)

section \<open>Reporter.report\<close>

text \<open>
  C1. For every reporter instance \<open>r\<close> and every scan result, \<open>report\<close> is the call of
  \<open>post\<close> on \<open>scanURI\<close> and the payload. \<open>scanURI\<close> is \<open>undefined\<close> when the instance's
  \<open>trackerURI\<close> is absent (falsy) and the string \<open>trackerURI + "/api/v1/scans"\<close> otherwise.
  The payload has exactly the five properties \<open>revision\<close>, \<open>scan_name\<close>, \<open>project_name\<close>,
  \<open>key\<close>, \<open>result\<close>, with the values of the instance fields \<open>revision\<close>, \<open>scanName\<close>,
  \<open>project\<close>, \<open>key\<close> and the scan result given. So when a request is sent, it goes to
  that string with that payload.
\<close>

theorem report_posts_scanURI_and_payload:
  "report stringify respond r axeResult
     = post stringify respond (scanURI r) (report_payload r axeResult)
   \<and> scanURI r = (if truthy (trackerURI r)
                  then JStr (to_str (trackerURI r) @ ''/api/v1/scans'') else JUndefined)
   \<and> map fst (report_payload r axeResult)
       = [''revision'', ''scan_name'', ''project_name'', ''key'', ''result'']
   \<and> map snd (report_payload r axeResult)
       = [InstanceField (revision r), InstanceField (scanName r), InstanceField (project r),
          InstanceField (key r), ScanResult axeResult]
   \<and> sent (report stringify respond r axeResult)
       = (if truthy (trackerURI r)
          then [post_request stringify (JStr (to_str (trackerURI r) @ ''/api/v1/scans''))
                  (report_payload r axeResult)]
          else [])"
  by (simp add: report_def scanURI_def report_payload_def post_def Let_def)

text \<open>
  C10. The page of a reporter plays no part in \<open>report\<close>: two reporters constructed with
  the same scan name, options and global state but different pages have the same
  \<open>scanURI\<close> and payload, and \<open>report\<close> warns, sends and settles the same for both; the
  same holds for any reporter whose \<open>page\<close> field is replaced.
\<close>

theorem page_noninterference:
  "report stringify respond (new_A11yReporter page1 sn opts g) axeResult
     = report stringify respond (new_A11yReporter page2 sn opts g) axeResult
   \<and> scanURI (new_A11yReporter page1 sn opts g) = scanURI (new_A11yReporter page2 sn opts g)
   \<and> report_payload (new_A11yReporter page1 sn opts g) axeResult
     = report_payload (new_A11yReporter page2 sn opts g) axeResult
   \<and> report stringify respond (r\<lparr>page := page2\<rparr>) axeResult
     = report stringify respond r axeResult"
  by (simp add: report_def scanURI_def report_payload_def new_A11yReporter_def)

section \<open>Transport\<close>

text \<open>
  C2. For every falsy \<open>uri\<close> and every \<open>data\<close>, the promise of \<open>post\<close> is resolved with
  the empty object, no request is sent, and two warnings are logged: the fact that the
  URI is blank, then \<open>data\<close>.
\<close>

theorem post_blank_uri_dry_run:
  assumes "\<not> truthy uri"
  shows "promise (post stringify respond uri data) = Some (Resolved EmptyObject)
       \<and> sent (post stringify respond uri data) = []
       \<and> warned (post stringify respond uri data)
           = [WarnText ''a11y-tracker URI is blank. would have posted:'', WarnData data]"
  using assms by (simp add: post_def)

theorem post_blank_uri_dry_run_witness:
  "\<not> truthy (JStr '''')
   \<and> promise (post (\<lambda>d. d) (\<lambda>q. Some \<lparr>status = 200, responseText = ''done''\<rparr>) (JStr '''') ''scan'')
       = Some (Resolved EmptyObject)
   \<and> sent (post (\<lambda>d. d) (\<lambda>q. Some \<lparr>status = 200, responseText = ''done''\<rparr>) (JStr '''') ''scan'') = []
   \<and> warned (post (\<lambda>d. d) (\<lambda>q. Some \<lparr>status = 200, responseText = ''done''\<rparr>) (JStr '''') ''scan'')
       = [WarnText ''a11y-tracker URI is blank. would have posted:'', WarnData ''scan'']"
proof -
  have blank: "\<not> truthy (JStr '''')" by simp
  show ?thesis
    using blank
      post_blank_uri_dry_run [OF blank, of "\<lambda>d. d"
        "\<lambda>q. Some \<lparr>status = 200, responseText = ''done''\<rparr>" "''scan''"]
    by simp
qed

text \<open>
  C3. The claim: for a truthy \<open>uri\<close>, a request that completes with a status in
  \<open>[200, 300)\<close> resolves the promise with the response body. The code at such an input:
  the request to \<open>https://api.example.com/api/v1/scans\<close> completes with status 200 and
  the response body \<open>created\<close>, and the promise is resolved with \<open>undefined\<close>, the value
  of \<open>xhr.body\<close>, not with the body of the response. With status 404 the promise is
  rejected with the \<open>xhr\<close> object, as the claim says.
\<close>

theorem post_resolves_with_undefined_body:
  "promise (post (\<lambda>d. d) (\<lambda>q. Some \<lparr>status = 200, responseText = ''created''\<rparr>)
      (JStr ''https://api.example.com/api/v1/scans'') ''scan'')
     = Some (Resolved (Value JUndefined))
   \<and> promise (post (\<lambda>d. d) (\<lambda>q. Some \<lparr>status = 200, responseText = ''created''\<rparr>)
      (JStr ''https://api.example.com/api/v1/scans'') ''scan'')
     \<noteq> Some (Resolved (Value (JStr ''created'')))
   \<and> promise (post (\<lambda>d. d) (\<lambda>q. Some \<lparr>status = 404, responseText = ''missing''\<rparr>)
      (JStr ''https://api.example.com/api/v1/scans'') ''scan'')
     = Some (Rejected \<lparr>status = 404, responseText = ''missing''\<rparr>)"
  by (simp add: post_def onload_def body_def Let_def)

section \<open>Global configuration\<close>

text \<open>
  C4. For every \<open>opts\<close>, \<open>configure\<close> gives each of the four fields of the global state
  the value of \<open>opts\<close> if that value is truthy and leaves it as it was otherwise. So an
  \<open>opts\<close> with no truthy field, \<open>{}\<close> among them, changes nothing;
  \<open>configure({key: 'abc'})\<close> changes \<open>key\<close> only; and a field that holds a truthy value
  holds one after any call.
\<close>

theorem configure_overwrites_truthy_only:
  "trackerURI (configure opts g)
     = (if truthy (trackerURI opts) then trackerURI opts else trackerURI g)
   \<and> revision (configure opts g)
     = (if truthy (revision opts) then revision opts else revision g)
   \<and> project (configure opts g)
     = (if truthy (project opts) then project opts else project g)
   \<and> key (configure opts g) = (if truthy (key opts) then key opts else key g)
   \<and> (\<not> truthy (trackerURI opts) \<and> \<not> truthy (revision opts) \<and> \<not> truthy (project opts)
        \<and> \<not> truthy (key opts) \<longrightarrow> configure opts g = g)
   \<and> configure empty_opts g = g
   \<and> configure (empty_opts\<lparr>key := JStr ''abc''\<rparr>) g = g\<lparr>key := JStr ''abc''\<rparr>
   \<and> (truthy (trackerURI g) \<longrightarrow> truthy (trackerURI (configure opts g)))
   \<and> (truthy (revision g) \<longrightarrow> truthy (revision (configure opts g)))
   \<and> (truthy (project g) \<longrightarrow> truthy (project (configure opts g)))
   \<and> (truthy (key g) \<longrightarrow> truthy (key (configure opts g)))"
  by (simp add: configure_def empty_opts_def Let_def)

theorem configure_overwrites_truthy_only_witness:
  "\<not> truthy (JStr '''') \<and> \<not> truthy JNull \<and> \<not> truthy (JBool False) \<and> \<not> truthy JUndefined
   \<and> truthy (JStr ''https://api.example.com/'')
   \<and> configure \<lparr>trackerURI = JStr '''', revision = JNull, project = JBool False, key = JUndefined\<rparr>
       \<lparr>trackerURI = JStr ''https://api.example.com/'', revision = JStr ''abc'',
        project = JStr ''demo'', key = JStr ''k1''\<rparr>
     = \<lparr>trackerURI = JStr ''https://api.example.com/'', revision = JStr ''abc'',
        project = JStr ''demo'', key = JStr ''k1''\<rparr>
   \<and> truthy (trackerURI (configure \<lparr>trackerURI = JStr '''', revision = JNull,
         project = JBool False, key = JUndefined\<rparr>
       \<lparr>trackerURI = JStr ''https://api.example.com/'', revision = JStr ''abc'',
        project = JStr ''demo'', key = JStr ''k1''\<rparr>))"
  using configure_overwrites_truthy_only
    [of "\<lparr>trackerURI = JStr '''', revision = JNull, project = JBool False, key = JUndefined\<rparr>"
        "\<lparr>trackerURI = JStr ''https://api.example.com/'', revision = JStr ''abc'',
          project = JStr ''demo'', key = JStr ''k1''\<rparr>"]
  by simp

section \<open>The effective tracker URI\<close>

text \<open>
  C5, as stated, fails: a configured tracker URI that ends in two slashes loses one of
  them only, so the effective value is a non-empty string that still ends in a slash.
\<close>

theorem trackerURI_double_slash_counterexample:
  "\<not> slashless_or_absent
       (trackerURI (new_A11yReporter (JStr ''/home'') (JStr ''home page'')
          (empty_opts\<lparr>trackerURI := JStr ''https://api.example.com//''\<rparr>) empty_opts))
   \<and> trackerURI (new_A11yReporter (JStr ''/home'') (JStr ''home page'')
          (empty_opts\<lparr>trackerURI := JStr ''https://api.example.com//''\<rparr>) empty_opts)
       = JStr ''https://api.example.com/''"
  by (simp add: new_A11yReporter_def empty_opts_def js_or_def chomp_def)

text \<open>
  C5, amended. For every reporter constructed from options and a global state whose
  configured tracker URI (\<open>opts.trackerURI || A11yReporter.trackerURI\<close>) is absent or
  a string that does not end in two slashes, the effective \<open>trackerURI\<close> is either a
  non-empty string with no trailing slash, or absent (falsy); and for every reporter,
  the effective \<open>trackerURI\<close> being absent is exactly the condition under which \<open>report\<close>
  sends no request.
\<close>

theorem effective_trackerURI_invariant:
  assumes "at_most_one_trailing_slash (js_or (trackerURI opts) (trackerURI g))"
  shows "slashless_or_absent (trackerURI (new_A11yReporter pg sn opts g))
       \<and> (\<not> truthy (trackerURI (new_A11yReporter pg sn opts g))
            \<longleftrightarrow> sent (report stringify respond (new_A11yReporter pg sn opts g) axeResult) = [])"
  using chomp_keeps_invariant [OF assms]
  by (simp add: report_skips_network) (simp add: new_A11yReporter_def)

theorem effective_trackerURI_invariant_witness:
  "at_most_one_trailing_slash
     (js_or (trackerURI (empty_opts\<lparr>trackerURI := JStr ''https://api.example.com/''\<rparr>))
        (trackerURI empty_opts))
   \<and> trackerURI (new_A11yReporter (JStr ''/home'') (JStr ''home page'')
         (empty_opts\<lparr>trackerURI := JStr ''https://api.example.com/''\<rparr>) empty_opts)
       = JStr ''https://api.example.com''
   \<and> slashless_or_absent
       (trackerURI (new_A11yReporter (JStr ''/home'') (JStr ''home page'')
         (empty_opts\<lparr>trackerURI := JStr ''https://api.example.com/''\<rparr>) empty_opts))
   \<and> sent (report (\<lambda>d. ''{}'') (\<lambda>q. Some \<lparr>status = 200, responseText = ''done''\<rparr>)
         (new_A11yReporter (JStr ''/home'') (JStr ''home page'')
           (empty_opts\<lparr>trackerURI := JStr ''https://api.example.com/''\<rparr>) empty_opts)
         ''scan'') \<noteq> []"
proof -
  have h: "at_most_one_trailing_slash
     (js_or (trackerURI (empty_opts\<lparr>trackerURI := JStr ''https://api.example.com/''\<rparr>))
        (trackerURI empty_opts))"
    by (simp add: js_or_def empty_opts_def)
  have v: "trackerURI (new_A11yReporter (JStr ''/home'') (JStr ''home page'')
         (empty_opts\<lparr>trackerURI := JStr ''https://api.example.com/''\<rparr>) empty_opts)
       = JStr ''https://api.example.com''"
    by (simp add: new_A11yReporter_def empty_opts_def js_or_def chomp_def)
  show ?thesis
    using h v
      effective_trackerURI_invariant [OF h, of "JStr ''/home''" "JStr ''home page''"
        "\<lambda>d. ''{}''" "\<lambda>q. Some \<lparr>status = 200, responseText = ''done''\<rparr>" "''scan''"]
    by simp
qed

text \<open>
  C6. For every configured tracker URI (\<open>opts.trackerURI || A11yReporter.trackerURI\<close>)
  that is a non-empty string \<open>s\<close> ending in \<open>/\<close>, the effective \<open>trackerURI\<close> of the
  reporter is \<open>s\<close> without its last character, which is one \<open>/\<close>. In general
  \<open>chomp v '/'\<close> removes the last character of a non-empty string that ends in \<open>/\<close> and
  returns every other value as it is, a falsy value in particular.
\<close>

theorem chomp_removes_one_trailing_slash:
  assumes "js_or (trackerURI opts) (trackerURI g) = JStr s"
    and "s \<noteq> []"
    and "last s = CHR ''/''"
  shows "trackerURI (new_A11yReporter pg sn opts g) = JStr (butlast s)
       \<and> s = butlast s @ ''/''
       \<and> chomp v ''/''
           = (case v of
                JStr t \<Rightarrow> if t \<noteq> [] \<and> last t = CHR ''/'' then JStr (butlast t) else v
              | _ \<Rightarrow> v)
       \<and> (\<not> truthy v \<longrightarrow> chomp v ch = v)"
proof -
  from assms(2,3) have "s = butlast s @ ''/''"
    by (metis append_butlast_last_id)
  moreover from assms have "trackerURI (new_A11yReporter pg sn opts g) = JStr (butlast s)"
    by (simp add: new_A11yReporter_def chomp_slash)
  ultimately show ?thesis
    by (simp add: chomp_falsy) (rule chomp_slash)
qed

theorem chomp_removes_one_trailing_slash_witness:
  "js_or (trackerURI (empty_opts\<lparr>trackerURI := JStr ''https://api.example.com//''\<rparr>))
      (trackerURI empty_opts) = JStr ''https://api.example.com//''
   \<and> ''https://api.example.com//'' \<noteq> []
   \<and> last ''https://api.example.com//'' = CHR ''/''
   \<and> trackerURI (new_A11yReporter (JStr ''/home'') (JStr ''home page'')
         (empty_opts\<lparr>trackerURI := JStr ''https://api.example.com//''\<rparr>) empty_opts)
       = JStr ''https://api.example.com/''
   \<and> \<not> truthy (JStr '''')
   \<and> chomp (JStr '''') ''/'' = JStr ''''"
proof -
  have h: "js_or (trackerURI (empty_opts\<lparr>trackerURI := JStr ''https://api.example.com//''\<rparr>))
      (trackerURI empty_opts) = JStr ''https://api.example.com//''"
    by (simp add: js_or_def empty_opts_def)
  have n: "''https://api.example.com//'' \<noteq> []" by simp
  have l: "last ''https://api.example.com//'' = CHR ''/''" by simp
  show ?thesis
    using h chomp_removes_one_trailing_slash [OF h n l, of "JStr ''/home''" "JStr ''home page''"
        "JStr ''''" "''/''"]
    by simp
qed

section \<open>The stages of \<open>reportA11y\<close>\<close>

text \<open>
  C7, as stated, fails: for two violations the assertion fails with the message
  \<open>a11y: 2 violations were detected: expected 2 to equal 0\<close>, and in \<open>src/index.js\<close>
  with \<open>2 violations were detected: expected 2 to equal 0\<close>; neither is
  \<open>2 violations were detected\<close>.
\<close>

theorem assert_failure_message_counterexample:
  "assert_stage
     \<lparr>violations =
        [\<lparr>violation_id = JStr ''color-contrast'', impact = JStr ''serious'',
          nodes = [''a'', ''b'', ''c'']\<rparr>,
         \<lparr>violation_id = JStr ''image-alt'', impact = JStr ''critical'', nodes = [''img'']\<rparr>]\<rparr>
     = Fail ''a11y: 2 violations were detected: expected 2 to equal 0''
   \<and> assert_stage_index_js
     \<lparr>violations =
        [\<lparr>violation_id = JStr ''color-contrast'', impact = JStr ''serious'',
          nodes = [''a'', ''b'', ''c'']\<rparr>,
         \<lparr>violation_id = JStr ''image-alt'', impact = JStr ''critical'', nodes = [''img'']\<rparr>]\<rparr>
     = Fail ''2 violations were detected: expected 2 to equal 0''
   \<and> assert_stage
     \<lparr>violations =
        [\<lparr>violation_id = JStr ''color-contrast'', impact = JStr ''serious'',
          nodes = [''a'', ''b'', ''c'']\<rparr>,
         \<lparr>violation_id = JStr ''image-alt'', impact = JStr ''critical'', nodes = [''img'']\<rparr>]\<rparr>
     \<noteq> Fail ''2 violations were detected''
   \<and> assert_stage_index_js
     \<lparr>violations =
        [\<lparr>violation_id = JStr ''color-contrast'', impact = JStr ''serious'',
          nodes = [''a'', ''b'', ''c'']\<rparr>,
         \<lparr>violation_id = JStr ''image-alt'', impact = JStr ''critical'', nodes = [''img'']\<rparr>]\<rparr>
     \<noteq> Fail ''2 violations were detected''"
  by (simp add: assert_stage_def assert_stage_index_js_def assert_equal_def Let_def
      assert_message_cases assert_message_index_js_cases show_nat_small)

text \<open>
  C7, amended. For a scan result with \<open>n\<close> violations the assertion requires \<open>n = 0\<close>.
  The message given to it is exactly \<open><n> <violation|violations> <was|were> detected\<close>
  in \<open>src/index.js\<close>, and exactly that after \<open>a11y: \<close> in the other version of the
  module: singular exactly for \<open>n = 1\<close>, with the digits of \<open>n\<close>. On failure the message
  produced is exactly the message given followed by \<open>: expected <n> to equal 0\<close>. For
  two violations the message given is \<open>2 violations were detected\<close> in \<open>src/index.js\<close>,
  and the messages produced are \<open>2 violations were detected: expected 2 to equal 0\<close>
  and \<open>a11y: 2 violations were detected: expected 2 to equal 0\<close>.
\<close>

theorem assert_stage_messages:
  "assert_stage result
     = (if length (violations result) = 0 then Pass
        else Fail (assert_message (length (violations result)) @ '': expected ''
               @ show_nat (length (violations result)) @ '' to equal 0''))
   \<and> assert_stage_index_js result
     = (if length (violations result) = 0 then Pass
        else Fail (assert_message_index_js (length (violations result)) @ '': expected ''
               @ show_nat (length (violations result)) @ '' to equal 0''))
   \<and> assert_message n
     = ''a11y: '' @ show_nat n @ '' '' @ (if n = 1 then ''violation'' else ''violations'')
         @ '' '' @ (if n = 1 then ''was'' else ''were'') @ '' detected''
   \<and> assert_message_index_js n
     = show_nat n @ '' '' @ (if n = 1 then ''violation'' else ''violations'')
         @ '' '' @ (if n = 1 then ''was'' else ''were'') @ '' detected''
   \<and> read_nat (show_nat n) = n
   \<and> assert_message_index_js 2 = ''2 violations were detected''
   \<and> assert_message 2 = ''a11y: 2 violations were detected''
   \<and> (length (violations result) = 2 \<longrightarrow>
        assert_stage result = Fail ''a11y: 2 violations were detected: expected 2 to equal 0''
        \<and> assert_stage_index_js result
            = Fail ''2 violations were detected: expected 2 to equal 0'')"
  by (simp add: assert_stage_def assert_stage_index_js_def assert_equal_def Let_def
      assert_message_cases assert_message_index_js_cases read_show_nat show_nat_small)

theorem assert_stage_messages_witness:
  "length (violations
     \<lparr>violations =
        [\<lparr>violation_id = JStr ''color-contrast'', impact = JStr ''serious'',
          nodes = [''a'', ''b'', ''c'']\<rparr>,
         \<lparr>violation_id = JStr ''image-alt'', impact = JStr ''critical'', nodes = [''img'']\<rparr>]\<rparr>)
     = 2
   \<and> assert_stage_index_js
     \<lparr>violations =
        [\<lparr>violation_id = JStr ''color-contrast'', impact = JStr ''serious'',
          nodes = [''a'', ''b'', ''c'']\<rparr>,
         \<lparr>violation_id = JStr ''image-alt'', impact = JStr ''critical'', nodes = [''img'']\<rparr>]\<rparr>
     = Fail ''2 violations were detected: expected 2 to equal 0''"
  using assert_stage_messages
    [of "\<lparr>violations =
        [\<lparr>violation_id = JStr ''color-contrast'', impact = JStr ''serious'',
          nodes = [''a'', ''b'', ''c'']\<rparr>,
         \<lparr>violation_id = JStr ''image-alt'', impact = JStr ''critical'', nodes = [''img'']\<rparr>]\<rparr>"]
  by (simp add: show_nat_small)

text \<open>
  C8. For every scan result whose violations each have one or more affected nodes, as
  a violation has, the report stage emits exactly one log entry for every violation,
  in their order: its name is \<open>a11y/\<close> followed by the impact of the violation, the
  violation is its \<open>consoleProps\<close>, and its message is the id of the violation
  followed by the parenthesized number of nodes if and only if more than one node is
  affected; for exactly one node, the message is the bare id.
\<close>

theorem report_stage_logs_each_violation:
  assumes "\<forall>v \<in> set (violations result). nodes v \<noteq> []"
  shows "length (snd (report_stage stringify respond r result)) = length (violations result)
   \<and> (\<forall>i < length (violations result).
        name (snd (report_stage stringify respond r result) ! i)
          = ''a11y/'' @ to_str (impact (violations result ! i))
        \<and> message (snd (report_stage stringify respond r result) ! i)
          = to_str (violation_id (violations result ! i))
            @ (if 1 < length (nodes (violations result ! i))
               then '' ('' @ show_nat (length (nodes (violations result ! i))) @ '')''
               else '''')
        \<and> (message (snd (report_stage stringify respond r result) ! i)
             = to_str (violation_id (violations result ! i))
               @ '' ('' @ show_nat (length (nodes (violations result ! i))) @ '')''
           \<longleftrightarrow> 1 < length (nodes (violations result ! i)))
        \<and> (length (nodes (violations result ! i)) = 1 \<longrightarrow>
             message (snd (report_stage stringify respond r result) ! i)
               = to_str (violation_id (violations result ! i)))
        \<and> consoleProps (snd (report_stage stringify respond r result) ! i)
          = violations result ! i)
   \<and> fst (report_stage stringify respond r result) = report stringify respond r result"
proof -
  have nodes: "0 < length (nodes (violations result ! i))"
    if "i < length (violations result)" for i
    using assms that by (simp add: nth_mem)
  have entry: "name (log_violation v) = ''a11y/'' @ to_str (impact v)
        \<and> message (log_violation v)
          = to_str (violation_id v)
            @ (if 1 < length (nodes v) then '' ('' @ show_nat (length (nodes v)) @ '')''
               else '''')
        \<and> (message (log_violation v)
             = to_str (violation_id v) @ '' ('' @ show_nat (length (nodes v)) @ '')''
           \<longleftrightarrow> 1 < length (nodes v))
        \<and> (length (nodes v) = 1 \<longrightarrow> message (log_violation v) = to_str (violation_id v))
        \<and> consoleProps (log_violation v) = v"
    if "0 < length (nodes v)" for v :: "'a violation"
  proof (cases "length (nodes v) = 1")
    case True
    then show ?thesis by (simp add: log_violation_def Let_def)
  next
    case False
    with that have "1 < length (nodes v)" by linarith
    with False show ?thesis by (simp add: log_violation_def Let_def)
  qed
  show ?thesis
    using entry [OF nodes] by (simp add: report_stage_def)
qed

theorem report_stage_logs_each_violation_witness:
  "nodes \<lparr>violation_id = JStr ''color-contrast'', impact = JStr ''serious'',
          nodes = [''a'', ''b'', ''c'']\<rparr> \<noteq> []
   \<and> nodes \<lparr>violation_id = JStr ''image-alt'', impact = JStr ''critical'',
          nodes = [''img'']\<rparr> \<noteq> []
   \<and> name (snd (report_stage (\<lambda>d. ''{}'') (\<lambda>q. Some \<lparr>status = 200, responseText = ''done''\<rparr>)
        (new_A11yReporter (JStr ''/home'') (JStr ''home page'')
           (empty_opts\<lparr>trackerURI := JStr ''https://api.example.com/''\<rparr>) empty_opts)
        \<lparr>violations =
          [\<lparr>violation_id = JStr ''color-contrast'', impact = JStr ''serious'',
            nodes = [''a'', ''b'', ''c'']\<rparr>,
           \<lparr>violation_id = JStr ''image-alt'', impact = JStr ''critical'',
            nodes = [''img'']\<rparr>]\<rparr>) ! 0) = ''a11y/serious''
   \<and> message (snd (report_stage (\<lambda>d. ''{}'') (\<lambda>q. Some \<lparr>status = 200, responseText = ''done''\<rparr>)
        (new_A11yReporter (JStr ''/home'') (JStr ''home page'')
           (empty_opts\<lparr>trackerURI := JStr ''https://api.example.com/''\<rparr>) empty_opts)
        \<lparr>violations =
          [\<lparr>violation_id = JStr ''color-contrast'', impact = JStr ''serious'',
            nodes = [''a'', ''b'', ''c'']\<rparr>,
           \<lparr>violation_id = JStr ''image-alt'', impact = JStr ''critical'',
            nodes = [''img'']\<rparr>]\<rparr>) ! 0) = ''color-contrast (3)''
   \<and> name (snd (report_stage (\<lambda>d. ''{}'') (\<lambda>q. Some \<lparr>status = 200, responseText = ''done''\<rparr>)
        (new_A11yReporter (JStr ''/home'') (JStr ''home page'')
           (empty_opts\<lparr>trackerURI := JStr ''https://api.example.com/''\<rparr>) empty_opts)
        \<lparr>violations =
          [\<lparr>violation_id = JStr ''color-contrast'', impact = JStr ''serious'',
            nodes = [''a'', ''b'', ''c'']\<rparr>,
           \<lparr>violation_id = JStr ''image-alt'', impact = JStr ''critical'',
            nodes = [''img'']\<rparr>]\<rparr>) ! 1) = ''a11y/critical''
   \<and> message (snd (report_stage (\<lambda>d. ''{}'') (\<lambda>q. Some \<lparr>status = 200, responseText = ''done''\<rparr>)
        (new_A11yReporter (JStr ''/home'') (JStr ''home page'')
           (empty_opts\<lparr>trackerURI := JStr ''https://api.example.com/''\<rparr>) empty_opts)
        \<lparr>violations =
          [\<lparr>violation_id = JStr ''color-contrast'', impact = JStr ''serious'',
            nodes = [''a'', ''b'', ''c'']\<rparr>,
           \<lparr>violation_id = JStr ''image-alt'', impact = JStr ''critical'',
            nodes = [''img'']\<rparr>]\<rparr>) ! 1) = ''image-alt''"
proof -
  let ?result = "\<lparr>violations =
          [\<lparr>violation_id = JStr ''color-contrast'', impact = JStr ''serious'',
            nodes = [''a'', ''b'', ''c'']\<rparr>,
           \<lparr>violation_id = JStr ''image-alt'', impact = JStr ''critical'',
            nodes = [''img'']\<rparr>]\<rparr>"
  have h: "\<forall>v \<in> set (violations ?result). nodes v \<noteq> []" by simp
  have l0: "0 < length (violations ?result)" by simp
  have l1: "1 < length (violations ?result)" by simp
  note t = report_stage_logs_each_violation
    [OF h, of "\<lambda>d. ''{}''" "\<lambda>q. Some \<lparr>status = 200, responseText = ''done''\<rparr>"
        "new_A11yReporter (JStr ''/home'') (JStr ''home page'')
           (empty_opts\<lparr>trackerURI := JStr ''https://api.example.com/''\<rparr>) empty_opts",
        THEN conjunct2, THEN conjunct1]
  from h t [rule_format, OF l0] t [rule_format, OF l1] show ?thesis
    by (simp add: show_nat_small)
qed

section \<open>Pluralization\<close>

text \<open>
  C9. For every number \<open>num\<close> and strings \<open>single\<close>, \<open>multiple\<close>, where \<open>multiple\<close> is
  either omitted or an irregular form, a non-empty string: \<open>plural\<close> returns \<open>single\<close>
  exactly when \<open>num === 1\<close>, and otherwise returns \<open>multiple\<close>, which is \<open>single + "s"\<close>
  when it is omitted. With \<open>multiple\<close> omitted, and with an irregular form other than
  \<open>single\<close> itself, the value returned is \<open>single\<close> if and only if \<open>num === 1\<close>. The five
  examples hold.
\<close>

theorem plural_rule:
  "plural num (JStr single) JUndefined
     = (if num = 1 then JStr single else JStr (single @ ''s''))
   \<and> (plural num (JStr single) JUndefined = JStr single \<longleftrightarrow> num = 1)
   \<and> (multiple \<noteq> [] \<longrightarrow>
        plural num (JStr single) (JStr multiple)
          = (if num = 1 then JStr single else JStr multiple))
   \<and> (multiple \<noteq> [] \<and> multiple \<noteq> single \<longrightarrow>
        (plural num (JStr single) (JStr multiple) = JStr single \<longleftrightarrow> num = 1))
   \<and> plural 1 (JStr ''violation'') JUndefined = JStr ''violation''
   \<and> plural 0 (JStr ''violation'') JUndefined = JStr ''violations''
   \<and> plural 5 (JStr ''violation'') JUndefined = JStr ''violations''
   \<and> plural 1 (JStr ''was'') (JStr ''were'') = JStr ''was''
   \<and> plural 2 (JStr ''was'') (JStr ''were'') = JStr ''were''"
  by (simp add: plural_def)

theorem plural_rule_witness:
  "''were'' \<noteq> [] \<and> ''were'' \<noteq> ''was''
   \<and> plural 2 (JStr ''was'') (JStr ''were'') = JStr ''were''
   \<and> plural 2 (JStr ''was'') (JStr ''were'') \<noteq> JStr ''was''
   \<and> plural 1 (JStr ''was'') (JStr ''were'') = JStr ''was''"
  using plural_rule [of 2 "''was''" "''were''"] plural_rule [of 1 "''was''" "''were''"]
  by simp

end
